theory Spec2Isabelle
  imports Complex_Main "HOL-Library.Multiset" "HOL-Library.Sublist"
begin

section \<open>Entities (entities.go)\<close>

text \<open>
  The Go structs become records. Field names that several structs share carry a suffix
  (\<open>_c\<close> for Card, \<open>_t\<close> for Transaction). A \<open>float64\<close> amount is read as a real
  number: rounding is outside this development. A \<open>time.Time\<close> is the instant in
  nanoseconds, so \<open>Before\<close> is \<open><\<close>.
\<close>

record Auth =
  Success :: bool
  Message :: string
  Token :: string
  ExpiresAt :: int

record User =
  Email :: string
  Pwd :: string
  Name :: string

record BankAccount =
  BankId :: string
  AccountId :: string
  AccountName :: string
  AccountType :: string
  Last4 :: string
  CurrentBalance :: real

record Card =
  AccountId_c :: string
  CardId :: string
  Last4_c :: string
  ExpiryMonth :: string
  ExpiryYear :: string
  CVV :: string
  Active :: bool

record Transaction =
  AccountId_t :: string
  TransactionId :: string
  TransactionDate :: int
  Amount :: real
  TransactionType :: string
  Description :: string
  CardId_t :: "string option"

text \<open>The zero values \<open>new(T)\<close> allocates, which unmarshalling an absent item leaves as is.\<close>

definition new_BankAccount :: BankAccount where
  "new_BankAccount = \<lparr>BankId = [], AccountId = [], AccountName = [], AccountType = [],
     Last4 = [], CurrentBalance = 0\<rparr>"

definition new_Card :: Card where
  "new_Card = \<lparr>AccountId_c = [], CardId = [], Last4_c = [], ExpiryMonth = [],
     ExpiryYear = [], CVV = [], Active = False\<rparr>"

definition new_Transaction :: Transaction where
  "new_Transaction = \<lparr>AccountId_t = [], TransactionId = [], TransactionDate = 0, Amount = 0,
     TransactionType = [], Description = [], CardId_t = None\<rparr>"

section \<open>Errors\<close>

text \<open>
  Every Go \<open>error\<close> the modelled functions return, by the kind the specification gives it:
  a rejected identifier, a rejected Authorization header or token, a failed store request,
  and the remaining library failures.
\<close>

datatype error =
  ValidationError string
  | AuthError string
  | PersistenceError
  | LibraryError string

text \<open>\<open>err.Error()\<close>: the message of an error.\<close>

fun Error :: "error \<Rightarrow> string" where
  "Error (ValidationError m) = m"
| "Error (AuthError m) = m"
| "Error PersistenceError = ''RequestError''"
| "Error (LibraryError m) = m"

section \<open>The store and the process state\<close>

text \<open>
  DynamoDB is outside the repository. It is modelled as four tables of items, each a list
  in the order the store happens to return it. Every request the code sends is logged in
  \<open>requests\<close>; \<open>outages\<close> says, request by request, whether the store is unreachable
  (an exhausted list means reachable). The store also rejects a request whose key holds
  an empty string, and a \<open>Query\<close> or \<open>Scan\<close> for the empty string. A \<open>Query\<close> or
  \<open>Scan\<close> that succeeds returns every matching item; a failed request changes no table. Marshalling an entity, unmarshalling an item and
  building an expression do not fail, so those error branches of the source have no
  counterpart here. \<open>rng\<close> and \<open>drawn\<close> are the random source of \<open>uuid.NewV4\<close>,
  \<open>authSecret\<close> the field of \<open>authSvc\<close>, \<open>clock\<close> what \<open>time.Now\<close> reads.
\<close>

datatype uuid = UUID string

datatype request =
  PutItem string "string list"
  | GetItem string "string list"
  | UpdateItem string "string list"
  | Query string string
  | Scan string string

record world =
  Users :: "User list"
  BankAccounts :: "BankAccount list"
  Cards :: "Card list"
  Transactions :: "Transaction list"
  requests :: "request list"
  outages :: "bool list"
  rng :: "nat \<Rightarrow> uuid"
  drawn :: nat
  authSecret :: string
  clock :: int

fun accepted :: "request \<Rightarrow> bool" where
  "accepted (PutItem tbl k) = ([] \<notin> set k)"
| "accepted (GetItem tbl k) = ([] \<notin> set k)"
| "accepted (UpdateItem tbl k) = ([] \<notin> set k)"
| "accepted (Query tbl v) = (v \<noteq> [])"
| "accepted (Scan tbl v) = (v \<noteq> [])"

text \<open>\<open>req.Send()\<close>: the request is logged; it succeeds when the store is reachable and
  accepts it.\<close>

definition Send :: "request \<Rightarrow> world \<Rightarrow> bool \<times> world" where
  "Send r w =
     (case outages w of
        [] \<Rightarrow> (accepted r, w\<lparr>requests := requests w @ [r]\<rparr>)
      | b # bs \<Rightarrow> (\<not> b \<and> accepted r, w\<lparr>requests := requests w @ [r], outages := bs\<rparr>))"

text \<open>What the three item requests do to a table, by the key of its items.\<close>

definition get_item :: "('a \<Rightarrow> 'k) \<Rightarrow> 'k \<Rightarrow> 'a list \<Rightarrow> 'a option" where
  "get_item key k tbl = find (\<lambda>x. key x = k) tbl"

definition put_item :: "('a \<Rightarrow> 'k) \<Rightarrow> 'a \<Rightarrow> 'a list \<Rightarrow> 'a list" where
  "put_item key x tbl = x # filter (\<lambda>y. key y \<noteq> key x) tbl"

text \<open>\<open>UpdateItem\<close> edits the item at the key, or adds a new item holding the key and the
  attributes set when there is none.\<close>

definition update_item :: "('a \<Rightarrow> 'k) \<Rightarrow> 'k \<Rightarrow> ('a \<Rightarrow> 'a) \<Rightarrow> 'a \<Rightarrow> 'a list \<Rightarrow> 'a list" where
  "update_item key k f blank tbl =
     (case get_item key k tbl of
        None \<Rightarrow> f blank # tbl
      | Some y \<Rightarrow> map (\<lambda>x. if key x = k then f x else x) tbl)"

definition acct_key :: "BankAccount \<Rightarrow> string \<times> string" where
  "acct_key a = (BankId a, AccountId a)"

definition card_key :: "Card \<Rightarrow> string \<times> string" where
  "card_key c = (AccountId_c c, CardId c)"

definition txn_key :: "Transaction \<Rightarrow> string \<times> string" where
  "txn_key t = (AccountId_t t, TransactionId t)"

section \<open>Libraries\<close>

text \<open>
  The libraries the code calls are outside the repository and enter as parameters:
  \<open>uuid.FromString\<close> (\<open>None\<close> for its error) and \<open>UUID.String\<close>; bcrypt's
  \<open>GenerateFromPassword\<close> (\<open>None\<close> for its error) and \<open>CompareHashAndPassword\<close> (true
  for a nil error); and, for the JWT compact serialisation, the base64url-JSON coding of
  the header (given by its \<open>alg\<close>) and of the claims, and the HMAC of a signing string
  under an algorithm and a key, as the base64url segment.
\<close>

datatype jval = JString string | JNumber int

type_synonym MapClaims = "(string \<times> jval) list"

record libs =
  uuid_FromString :: "string \<Rightarrow> uuid option"
  uuid_String :: "uuid \<Rightarrow> string"
  bcrypt_GenerateFromPassword :: "string \<Rightarrow> string option"
  bcrypt_CompareHashAndPassword :: "string \<Rightarrow> string \<Rightarrow> bool"
  jwt_EncodeHeader :: "string \<Rightarrow> string"
  jwt_DecodeHeader :: "string \<Rightarrow> string option"
  jwt_EncodeClaims :: "MapClaims \<Rightarrow> string"
  jwt_DecodeClaims :: "string \<Rightarrow> MapClaims option"
  hmac_Sign :: "string \<Rightarrow> string \<Rightarrow> string \<Rightarrow> string"

text \<open>\<open>uuid.NewV4()\<close> draws the next value of the random source.\<close>

definition NewV4 :: "world \<Rightarrow> uuid \<times> world" where
  "NewV4 w = (rng w (drawn w), w\<lparr>drawn := Suc (drawn w)\<rparr>)"

section \<open>service.go: bank accounts\<close>

text \<open>\<open>BankAccount.UpdateCurrentBalance\<close>: the new balance is computed from the receiver
  \<open>a\<close>, then written by an \<open>UpdateItem\<close> at the receiver's key. The result is the Go
  \<open>error\<close>, \<open>None\<close> for \<open>nil\<close>.\<close>

definition UpdateCurrentBalance ::
    "BankAccount \<Rightarrow> real \<Rightarrow> string \<Rightarrow> world \<Rightarrow> error option \<times> world" where
  "UpdateCurrentBalance a txnAmount txnType w =
     (let txnAmount' = (if txnType = ''CREDIT'' then \<bar>txnAmount\<bar> * - 1 else txnAmount);
          currBalance = CurrentBalance a + txnAmount';
          (ok, w1) = Send (UpdateItem ''BankAccounts'' [BankId a, AccountId a]) w
      in if \<not> ok then (Some PersistenceError, w1)
         else (None, w1\<lparr>BankAccounts :=
                 update_item acct_key (BankId a, AccountId a)
                   (\<lambda>x. x\<lparr>CurrentBalance := currBalance\<rparr>)
                   (new_BankAccount\<lparr>BankId := BankId a, AccountId := AccountId a\<rparr>)
                   (BankAccounts w1)\<rparr>))"

text \<open>\<open>GetUserBankAccounts\<close>: a \<open>Query\<close> on the partition key \<open>bankId\<close>.\<close>

definition GetUserBankAccounts :: "libs \<Rightarrow> uuid \<Rightarrow> world \<Rightarrow> (error + BankAccount list) \<times> world" where
  "GetUserBankAccounts L bankId w =
     (let (ok, w1) = Send (Query ''BankAccounts'' (uuid_String L bankId)) w
      in if \<not> ok then (Inl PersistenceError, w1)
         else (Inr (filter (\<lambda>a. BankId a = uuid_String L bankId) (BankAccounts w1)), w1))"

text \<open>\<open>GetUserBankAccount\<close>: a \<open>GetItem\<close>; an absent item unmarshals into the zero
  account, with a nil error.\<close>

definition GetUserBankAccount ::
    "libs \<Rightarrow> uuid \<Rightarrow> uuid \<Rightarrow> world \<Rightarrow> (error + BankAccount) \<times> world" where
  "GetUserBankAccount L bankId accountId w =
     (let (ok, w1) = Send (GetItem ''BankAccounts'' [uuid_String L bankId, uuid_String L accountId]) w
      in if \<not> ok then (Inl PersistenceError, w1)
         else (Inr (case get_item acct_key (uuid_String L bankId, uuid_String L accountId)
                            (BankAccounts w1) of
                      None \<Rightarrow> new_BankAccount
                    | Some a \<Rightarrow> a), w1))"

section \<open>service.go: cards\<close>

definition GetAccountCards :: "libs \<Rightarrow> uuid \<Rightarrow> world \<Rightarrow> (error + Card list) \<times> world" where
  "GetAccountCards L accountId w =
     (let (ok, w1) = Send (Query ''Cards'' (uuid_String L accountId)) w
      in if \<not> ok then (Inl PersistenceError, w1)
         else (Inr (filter (\<lambda>c. AccountId_c c = uuid_String L accountId) (Cards w1)), w1))"

definition GetAccountCard :: "libs \<Rightarrow> uuid \<Rightarrow> uuid \<Rightarrow> world \<Rightarrow> (error + Card) \<times> world" where
  "GetAccountCard L accountId cardId w =
     (let (ok, w1) = Send (GetItem ''Cards'' [uuid_String L accountId, uuid_String L cardId]) w
      in if \<not> ok then (Inl PersistenceError, w1)
         else (Inr (case get_item card_key (uuid_String L accountId, uuid_String L cardId)
                            (Cards w1) of
                      None \<Rightarrow> new_Card
                    | Some c \<Rightarrow> c), w1))"

text \<open>\<open>GetActiveAccountCard\<close>: a \<open>Scan\<close> filtered on \<open>accountId\<close> and \<open>active = true\<close>;
  no item gives \<open>(nil, nil)\<close>, here \<open>Inr None\<close>; otherwise \<open>cards[0]\<close>.\<close>

definition GetActiveAccountCard ::
    "libs \<Rightarrow> uuid \<Rightarrow> world \<Rightarrow> (error + Card option) \<times> world" where
  "GetActiveAccountCard L accountId w =
     (let (ok, w1) = Send (Scan ''Cards'' (uuid_String L accountId)) w
      in if \<not> ok then (Inl PersistenceError, w1)
         else (case filter (\<lambda>c. AccountId_c c = uuid_String L accountId \<and> Active c = True)
                      (Cards w1) of
                 [] \<Rightarrow> (Inr None, w1)
               | c # cs \<Rightarrow> (Inr (Some c), w1)))"

definition Card_Save :: "libs \<Rightarrow> Card \<Rightarrow> world \<Rightarrow> (error + Card) \<times> world" where
  "Card_Save L c w =
     (let (u, w0) = NewV4 w;
          c' = c\<lparr>CardId := uuid_String L u\<rparr>;
          (ok, w1) = Send (PutItem ''Cards'' [AccountId_c c', CardId c']) w0
      in if \<not> ok then (Inl PersistenceError, w1)
         else (Inr c', w1\<lparr>Cards := put_item card_key c' (Cards w1)\<rparr>))"

text \<open>\<open>Card.Inactivate\<close>: an \<open>UpdateItem\<close> setting \<open>active\<close> to false at the key of the
  receiver; the receiver itself is returned as it came.\<close>

definition Inactivate :: "Card \<Rightarrow> world \<Rightarrow> (error + Card) \<times> world" where
  "Inactivate c w =
     (let (ok, w1) = Send (UpdateItem ''Cards'' [AccountId_c c, CardId c]) w
      in if \<not> ok then (Inl PersistenceError, w1)
         else (Inr c, w1\<lparr>Cards :=
                 update_item card_key (AccountId_c c, CardId c)
                   (\<lambda>x. x\<lparr>Active := False\<rparr>)
                   (new_Card\<lparr>AccountId_c := AccountId_c c, CardId := CardId c\<rparr>)
                   (Cards w1)\<rparr>))"

section \<open>service.go: transactions\<close>

text \<open>\<open>sort.Slice\<close> is the standard library's comparison sort, driven by the \<open>less\<close> it is
  given; it promises no order among items that \<open>less\<close> does not separate. It is modelled
  by insertion with the same \<open>less\<close>.\<close>

fun sort_insert :: "('a \<Rightarrow> 'a \<Rightarrow> bool) \<Rightarrow> 'a \<Rightarrow> 'a list \<Rightarrow> 'a list" where
  "sort_insert lt x [] = [x]"
| "sort_insert lt x (y # ys) = (if lt x y then x # y # ys else y # sort_insert lt x ys)"

fun sort_Slice :: "('a \<Rightarrow> 'a \<Rightarrow> bool) \<Rightarrow> 'a list \<Rightarrow> 'a list" where
  "sort_Slice lt [] = []"
| "sort_Slice lt (x # xs) = sort_insert lt x (sort_Slice lt xs)"

definition Before :: "int \<Rightarrow> int \<Rightarrow> bool" where
  "Before t u = (t < u)"

definition GetAccountTransactions ::
    "libs \<Rightarrow> uuid \<Rightarrow> world \<Rightarrow> (error + Transaction list) \<times> world" where
  "GetAccountTransactions L accountId w =
     (let (ok, w1) = Send (Query ''Transactions'' (uuid_String L accountId)) w
      in if \<not> ok then (Inl PersistenceError, w1)
         else (let transactions =
                     filter (\<lambda>t. AccountId_t t = uuid_String L accountId) (Transactions w1)
               in (Inr (sort_Slice (\<lambda>ti tj. Before (TransactionDate ti) (TransactionDate tj))
                          transactions), w1)))"

definition GetAccountTransaction ::
    "libs \<Rightarrow> uuid \<Rightarrow> uuid \<Rightarrow> world \<Rightarrow> (error + Transaction) \<times> world" where
  "GetAccountTransaction L accountId transactionId w =
     (let (ok, w1) = Send (GetItem ''Transactions''
                             [uuid_String L accountId, uuid_String L transactionId]) w
      in if \<not> ok then (Inl PersistenceError, w1)
         else (Inr (case get_item txn_key (uuid_String L accountId, uuid_String L transactionId)
                            (Transactions w1) of
                      None \<Rightarrow> new_Transaction
                    | Some t \<Rightarrow> t), w1))"

text \<open>\<open>Transaction.Save\<close>, step by step as the source has it: a fresh id, the \<open>PutItem\<close>
  of the transaction, then the parse of its \<open>accountId\<close>, the read of the account and
  the balance update.\<close>

definition Save :: "libs \<Rightarrow> uuid \<Rightarrow> Transaction \<Rightarrow> world \<Rightarrow> (error + Transaction) \<times> world" where
  "Save L bankId t0 w =
     (let (u, w0) = NewV4 w;
          t = t0\<lparr>TransactionId := uuid_String L u\<rparr>;
          (ok, w1) = Send (PutItem ''Transactions'' [AccountId_t t, TransactionId t]) w0
      in if \<not> ok then (Inl PersistenceError, w1)
         else (let w2 = w1\<lparr>Transactions := put_item txn_key t (Transactions w1)\<rparr>
               in case uuid_FromString L (AccountId_t t) of
                    None \<Rightarrow> (Inl (ValidationError (AccountId_t t)), w2)
                  | Some acctId \<Rightarrow>
                      (case GetUserBankAccount L bankId acctId w2 of
                         (Inl e, w3) \<Rightarrow> (Inl e, w3)
                       | (Inr bankAccount, w3) \<Rightarrow>
                           (case UpdateCurrentBalance bankAccount (Amount t) (TransactionType t) w3 of
                              (Some e, w4) \<Rightarrow> (Inl e, w4)
                            | (None, w4) \<Rightarrow> (Inr t, w4)))))"


section \<open>authentication.go\<close>

definition tokenExpiryMin :: int where
  "tokenExpiryMin = 60"

definition bearerTokenKey :: string where
  "bearerTokenKey = ''Bearer ''"

definition Minute :: int where
  "Minute = 60 * 1000000000"

definition HashPwd :: "libs \<Rightarrow> string \<Rightarrow> error + string" where
  "HashPwd L pwd =
     (case bcrypt_GenerateFromPassword L pwd of
        None \<Rightarrow> Inl (LibraryError ''bcrypt'')
      | Some hash \<Rightarrow> Inr hash)"

definition VerifyPwd :: "libs \<Rightarrow> string \<Rightarrow> string \<Rightarrow> bool" where
  "VerifyPwd L hashedPwd pwd =
     (if \<not> bcrypt_CompareHashAndPassword L hashedPwd pwd then False else True)"

text \<open>\<open>BuildToken\<close>: the claims are \<open>email\<close> and \<open>name\<close>, and nothing else; the token is
  the signing string, a dot and its HS256 signature under the secret; the expiry returned
  next to it is now plus 60 minutes, in nanoseconds.\<close>

definition BuildToken :: "libs \<Rightarrow> world \<Rightarrow> User \<Rightarrow> error + (string \<times> int)" where
  "BuildToken L w user =
     (let claims = [(''email'', JString (Email user)), (''name'', JString (Name user))];
          sstr = jwt_EncodeHeader L ''HS256'' @ ''.'' @ jwt_EncodeClaims L claims;
          signedToken = sstr @ ''.'' @ hmac_Sign L ''HS256'' (authSecret w) sstr;
          now = clock w;
          nowPlusExpiry = now + tokenExpiryMin * Minute
      in Inr (signedToken, nowPlusExpiry))"

text \<open>\<open>strings.Replace(s, old, new, -1)\<close> for a non-empty \<open>old\<close>: every occurrence, left
  to right, without overlap. The counter is the number of characters of a match still to
  skip.\<close>

fun replace_from :: "string \<Rightarrow> string \<Rightarrow> nat \<Rightarrow> string \<Rightarrow> string" where
  "replace_from old new k [] = []"
| "replace_from old new (Suc k) (c # cs) = replace_from old new k cs"
| "replace_from old new 0 (c # cs) =
     (if prefix old (c # cs) then new @ replace_from old new (length old - 1) cs
      else c # replace_from old new 0 cs)"

definition strings_Replace :: "string \<Rightarrow> string \<Rightarrow> string \<Rightarrow> string" where
  "strings_Replace s old new = replace_from old new 0 s"

text \<open>\<open>strings.Split(s, sep)\<close> for a separator of one character.\<close>

fun strings_Split :: "string \<Rightarrow> char \<Rightarrow> string list" where
  "strings_Split [] sep = [[]]"
| "strings_Split (c # cs) sep =
     (if c = sep then [] # strings_Split cs sep
      else (case strings_Split cs sep of
              [] \<Rightarrow> [[c]]
            | p # ps \<Rightarrow> (c # p) # ps))"

text \<open>
  The JWT library's \<open>Parse\<close>, as \<open>ValidateToken\<close> relies on it: three segments; the
  header's \<open>alg\<close> names a registered signing method; the key function gives the key or
  refuses; the claims \<open>exp\<close>, \<open>iat\<close> and \<open>nbf\<close> are checked against the time in seconds
  when the token carries them, and are not required; the signature is the HMAC of the
  first two segments under the key.
\<close>

record jwt_Token =
  Method :: string
  Claims :: MapClaims
  Signature :: string
  Valid :: bool

definition SigningMethodHMAC :: "string list" where
  "SigningMethodHMAC = [''HS256'', ''HS384'', ''HS512'']"

definition signingMethods :: "string list" where
  "signingMethods = SigningMethodHMAC @
     [''RS256'', ''RS384'', ''RS512'', ''ES256'', ''ES384'', ''ES512'',
      ''PS256'', ''PS384'', ''PS512'', ''none'']"

definition MapClaims_Valid :: "MapClaims \<Rightarrow> int \<Rightarrow> bool" where
  "MapClaims_Valid m now =
     ((case map_of m ''exp'' of Some (JNumber e) \<Rightarrow> e = 0 \<or> now \<le> e | _ \<Rightarrow> True) \<and>
      (case map_of m ''iat'' of Some (JNumber i) \<Rightarrow> i = 0 \<or> i \<le> now | _ \<Rightarrow> True) \<and>
      (case map_of m ''nbf'' of Some (JNumber n) \<Rightarrow> n = 0 \<or> n \<le> now | _ \<Rightarrow> True))"

definition jwt_Parse ::
    "libs \<Rightarrow> int \<Rightarrow> string \<Rightarrow> (string \<Rightarrow> error + string) \<Rightarrow> error + jwt_Token" where
  "jwt_Parse L unix tokenString keyFunc =
     (case strings_Split tokenString (CHR ''.'') of
        [h, c, sig] \<Rightarrow>
          (case jwt_DecodeHeader L h of
             None \<Rightarrow> Inl (AuthError ''token is malformed'')
           | Some alg \<Rightarrow>
               (case jwt_DecodeClaims L c of
                  None \<Rightarrow> Inl (AuthError ''token is malformed'')
                | Some claims \<Rightarrow>
                    if alg \<notin> set signingMethods
                    then Inl (AuthError ''signing method (alg) is unavailable.'')
                    else (case keyFunc alg of
                            Inl e \<Rightarrow> Inl e
                          | Inr key \<Rightarrow>
                              if \<not> MapClaims_Valid claims unix then Inl (AuthError ''token is invalid'')
                              else if hmac_Sign L alg key (h @ ''.'' @ c) \<noteq> sig
                              then Inl (AuthError ''signature is invalid'')
                              else Inr \<lparr>Method = alg, Claims = claims, Signature = sig,
                                         Valid = True\<rparr>)))
      | _ \<Rightarrow> Inl (AuthError ''token contains an invalid number of segments''))"

text \<open>\<open>ValidateToken\<close>: the header is the value the context holds under
  \<open>Authorization\<close> (\<open>None\<close> for nil).\<close>

definition ValidateToken :: "libs \<Rightarrow> world \<Rightarrow> string option \<Rightarrow> error + MapClaims" where
  "ValidateToken L w authHeader =
     (case authHeader of
        None \<Rightarrow> Inl (AuthError ''no valid Authorization token in request'')
      | Some header \<Rightarrow>
          if header = [] then Inl (AuthError ''no valid Authorization token in request'')
          else if \<not> prefix bearerTokenKey header
          then Inl (AuthError ''authorization token is not valid Bearer token'')
          else (let t = strings_Replace header bearerTokenKey []
                in case jwt_Parse L (clock w div 1000000000) t
                          (\<lambda>alg. if alg \<notin> set SigningMethodHMAC
                                 then Inl (AuthError ''there was an parsing the given token. please validate the token is for this service'')
                                 else Inr (authSecret w)) of
                     Inl err \<Rightarrow> Inl err
                   | Inr token \<Rightarrow>
                       if Valid token then Inr (Claims token)
                       else Inl (AuthError ''invalid authorization token'')))"

section \<open>service.go: users\<close>

definition Register :: "libs \<Rightarrow> User \<Rightarrow> world \<Rightarrow> (error + User) \<times> world" where
  "Register L u0 w =
     (case HashPwd L (Pwd u0) of
        Inl err \<Rightarrow> (Inl err, w)
      | Inr hashedPwd \<Rightarrow>
          (let u = u0\<lparr>Pwd := hashedPwd\<rparr>;
               (ok, w1) = Send (PutItem ''Users'' [Email u]) w
           in if \<not> ok then (Inl PersistenceError, w1)
              else (Inr u, w1\<lparr>Users := put_item Email u (Users w1)\<rparr>)))"

definition Authenticate :: "libs \<Rightarrow> string \<Rightarrow> string \<Rightarrow> world \<Rightarrow> Auth \<times> world" where
  "Authenticate L email pwd w =
     (let (ok, w1) = Send (GetItem ''Users'' [email]) w
      in if \<not> ok
         then (\<lparr>Success = False,
                 Message = ''Unable to find user by that email. Please check your email and try again'',
                 Token = [], ExpiresAt = 0\<rparr>, w1)
         else (case get_item Email email (Users w1) of
                 None \<Rightarrow>
                   (\<lparr>Success = False,
                     Message = ''Unable to find user by that email. Please check your email and try again'',
                     Token = [], ExpiresAt = 0\<rparr>, w1)
               | Some user \<Rightarrow>
                   if \<not> VerifyPwd L (Pwd user) pwd
                   then (\<lparr>Success = False,
                           Message = ''The password submitted does not match this users password. Please check the email and password and try again'',
                           Token = [], ExpiresAt = 0\<rparr>, w1)
                   else (case BuildToken L w1 user of
                           Inl err \<Rightarrow>
                             (\<lparr>Success = False, Message = Error err, Token = [], ExpiresAt = 0\<rparr>, w1)
                         | Inr (token, expiry) \<Rightarrow>
                             (\<lparr>Success = True, Message = ''Success'', Token = token,
                               ExpiresAt = expiry\<rparr>, w1))))"

section \<open>The resolvers of the GraphQL schema\<close>

text \<open>Each resolver takes the Authorization value of its context and its arguments, as
  the strings GraphQL hands over.\<close>

definition bankAccounts_Resolve ::
    "libs \<Rightarrow> string option \<Rightarrow> string \<Rightarrow> world \<Rightarrow> (error + BankAccount list) \<times> world" where
  "bankAccounts_Resolve L authHeader bankId w =
     (case ValidateToken L w authHeader of
        Inl err \<Rightarrow> (Inl err, w)
      | Inr claims \<Rightarrow>
          (case uuid_FromString L bankId of
             None \<Rightarrow> (Inl (ValidationError bankId), w)
           | Some bankId' \<Rightarrow> GetUserBankAccounts L bankId' w))"

definition bankAccount_Resolve ::
    "libs \<Rightarrow> string option \<Rightarrow> string \<Rightarrow> string \<Rightarrow> world \<Rightarrow> (error + BankAccount) \<times> world" where
  "bankAccount_Resolve L authHeader bankId acctId w =
     (case uuid_FromString L bankId of
        None \<Rightarrow> (Inl (ValidationError bankId), w)
      | Some bankId' \<Rightarrow>
          (case uuid_FromString L acctId of
             None \<Rightarrow> (Inl (ValidationError acctId), w)
           | Some acctId' \<Rightarrow> GetUserBankAccount L bankId' acctId' w))"

definition accountCards_Resolve ::
    "libs \<Rightarrow> string option \<Rightarrow> string \<Rightarrow> world \<Rightarrow> (error + Card list) \<times> world" where
  "accountCards_Resolve L authHeader acctId w =
     (case uuid_FromString L acctId of
        None \<Rightarrow> (Inl (ValidationError acctId), w)
      | Some acctId' \<Rightarrow> GetAccountCards L acctId' w)"

definition saveTransaction_Resolve ::
    "libs \<Rightarrow> string option \<Rightarrow> string \<Rightarrow> Transaction \<Rightarrow> world \<Rightarrow> (error + Transaction) \<times> world" where
  "saveTransaction_Resolve L authHeader bankId txn w =
     (case uuid_FromString L bankId of
        None \<Rightarrow> (Inl (ValidationError bankId), w)
      | Some bankId' \<Rightarrow> Save L bankId' txn w)"

definition inactivateAccountCard_Resolve ::
    "libs \<Rightarrow> string option \<Rightarrow> Card \<Rightarrow> world \<Rightarrow> (error + Card) \<times> world" where
  "inactivateAccountCard_Resolve L authHeader c w = Inactivate c w"

section \<open>Sample inputs\<close>

text \<open>
  An instance of the library parameters, for evaluating the definitions at concrete
  inputs. \<open>FromString\<close> reads the canonical text form (36 characters, hyphens at 8, 13,
  18 and 23, hexadecimal digits elsewhere) and \<open>String\<close> prints it in lower case. The
  JWT codings and the HMAC are the tables of the values the real functions take at the
  inputs used below: the header of HS256, the claims of the user \<open>a@x.com\<close> named
  \<open>A\<close>, and the signatures under the keys \<open>s3cret\<close> and \<open>other\<close>. The password hash
  is a stand-in that keeps the password readable.
\<close>

definition hexdigit :: "char \<Rightarrow> bool" where
  "hexdigit c = (c \<in> set ''0123456789abcdefABCDEF'')"

definition lower :: "char \<Rightarrow> char" where
  "lower c =
     (if c = CHR ''A'' then CHR ''a'' else if c = CHR ''B'' then CHR ''b''
      else if c = CHR ''C'' then CHR ''c'' else if c = CHR ''D'' then CHR ''d''
      else if c = CHR ''E'' then CHR ''e'' else if c = CHR ''F'' then CHR ''f'' else c)"

definition canonical :: "string \<Rightarrow> bool" where
  "canonical s =
     (length s = 36 \<and> s ! 8 = CHR ''-'' \<and> s ! 13 = CHR ''-'' \<and> s ! 18 = CHR ''-'' \<and>
      s ! 23 = CHR ''-'' \<and> length (filter (\<lambda>c. c = CHR ''-'') s) = 4 \<and>
      list_all hexdigit (filter (\<lambda>c. c \<noteq> CHR ''-'') s))"

definition sample_header :: string where
  "sample_header = ''eyJhbGciOiJIUzI1NiIsInR5cCI6IkpXVCJ9''"

definition sample_claims :: string where
  "sample_claims = ''eyJlbWFpbCI6ImFAeC5jb20iLCJuYW1lIjoiQSJ9''"

definition sample_libs :: libs where
  "sample_libs =
     \<lparr>uuid_FromString = (\<lambda>s. if canonical s then Some (UUID (map lower s)) else None),
      uuid_String = (\<lambda>u. case u of UUID s \<Rightarrow> s),
      bcrypt_GenerateFromPassword = (\<lambda>p. Some (''$2a$10$'' @ p)),
      bcrypt_CompareHashAndPassword = (\<lambda>h p. h = ''$2a$10$'' @ p),
      jwt_EncodeHeader = (\<lambda>alg. if alg = ''HS256'' then sample_header else []),
      jwt_DecodeHeader = (\<lambda>s. if s = sample_header then Some ''HS256'' else None),
      jwt_EncodeClaims =
        (\<lambda>m. if m = [(''email'', JString ''a@x.com''), (''name'', JString ''A'')]
             then sample_claims else []),
      jwt_DecodeClaims =
        (\<lambda>s. if s = sample_claims
             then Some [(''email'', JString ''a@x.com''), (''name'', JString ''A'')]
             else None),
      hmac_Sign =
        (\<lambda>alg key m.
           if alg = ''HS256'' \<and> m = sample_header @ ''.'' @ sample_claims \<and> key = ''s3cret''
           then ''XRd-M_iB1dWZI01RvOKcTgN6_htV3oZpzPt9W2_Vzfk''
           else if alg = ''HS256'' \<and> m = sample_header @ ''.'' @ sample_claims \<and> key = ''other''
           then ''SuKaleU016rxXWbJDMxO72Bsxzt7NP9tbXCknW8pIy4''
           else [])\<rparr>"

definition bank0 :: string where
  "bank0 = ''4b7b2def-e76e-48bf-993b-8ec2b193b855''"

definition acct0 :: string where
  "acct0 = ''6ba7b810-9dad-11d1-80b4-00c04fd430c8''"

definition sample_account :: BankAccount where
  "sample_account = \<lparr>BankId = bank0, AccountId = acct0, AccountName = ''Checking'',
     AccountType = ''CHECKING'', Last4 = ''1234'', CurrentBalance = 100\<rparr>"

definition card_A :: Card where
  "card_A = \<lparr>AccountId_c = acct0, CardId = ''0a000000-0000-4000-8000-00000000000a'',
     Last4_c = ''1111'', ExpiryMonth = ''01'', ExpiryYear = ''2030'', CVV = ''111'',
     Active = True\<rparr>"

definition card_B :: Card where
  "card_B = \<lparr>AccountId_c = acct0, CardId = ''0b000000-0000-4000-8000-00000000000b'',
     Last4_c = ''2222'', ExpiryMonth = ''02'', ExpiryYear = ''2031'', CVV = ''222'',
     Active = True\<rparr>"

definition sample_rng :: "nat \<Rightarrow> uuid" where
  "sample_rng n =
     (if n = 0 then UUID ''00000000-0000-4000-8000-000000000001''
      else if n = 1 then UUID ''00000000-0000-4000-8000-000000000002''
      else UUID ''00000000-0000-4000-8000-000000000003'')"

definition sample_world :: world where
  "sample_world = \<lparr>Users = [], BankAccounts = [sample_account], Cards = [card_A, card_B],
     Transactions = [], requests = [], outages = [], rng = sample_rng, drawn = 0,
     authSecret = ''s3cret'', clock = 0\<rparr>"

definition txn :: "string \<Rightarrow> int \<Rightarrow> real \<Rightarrow> string \<Rightarrow> Transaction" where
  "txn acct date amount ty = \<lparr>AccountId_t = acct, TransactionId = [], TransactionDate = date,
     Amount = amount, TransactionType = ty, Description = ''sample'', CardId_t = None\<rparr>"

definition user0 :: User where
  "user0 = \<lparr>Email = ''a@x.com'', Pwd = ''pw1'', Name = ''A''\<rparr>"

definition sample_token :: string where
  "sample_token = sample_header @ ''.'' @ sample_claims @ ''.'' @
     ''XRd-M_iB1dWZI01RvOKcTgN6_htV3oZpzPt9W2_Vzfk''"

text \<open>A world whose transactions were inserted out of date order, one of them owned by
  another account; a world whose only card is inactive; a world where the third request to come meets
  an outage.\<close>

definition acct1 :: string where
  "acct1 = ''7ca7b810-9dad-11d1-80b4-00c04fd430c9''"

definition ledger_world :: world where
  "ledger_world = sample_world\<lparr>Transactions :=
     [(txn acct0 30 7 ''DEBIT'')\<lparr>TransactionId := ''t3''\<rparr>,
      (txn acct0 10 5 ''CREDIT'')\<lparr>TransactionId := ''t1''\<rparr>,
      (txn acct1 5 9 ''DEBIT'')\<lparr>TransactionId := ''t0''\<rparr>,
      (txn acct0 20 6 ''DEBIT'')\<lparr>TransactionId := ''t2''\<rparr>]\<rparr>"

definition cardless_world :: world where
  "cardless_world = sample_world\<lparr>Cards := [card_A\<lparr>Active := False\<rparr>]\<rparr>"

definition failing_world :: world where
  "failing_world = sample_world\<lparr>outages := [False, False, True]\<rparr>"

section \<open>Notions the properties are stated with\<close>

text \<open>The store is reachable for the next request.\<close>

definition reachable :: "world \<Rightarrow> bool" where
  "reachable w = (case outages w of [] \<Rightarrow> True | b # bs \<Rightarrow> \<not> b)"

text \<open>The store is reachable for every request to come.\<close>

definition up :: "world \<Rightarrow> bool" where
  "up w = list_all (\<lambda>b. \<not> b) (outages w)"



text \<open>The alphabet of the segments of a compact JWT.\<close>

definition base64url :: "string \<Rightarrow> bool" where
  "base64url s =
     list_all (\<lambda>c. c \<in> set ''ABCDEFGHIJKLMNOPQRSTUVWXYZabcdefghijklmnopqrstuvwxyz0123456789-_'') s"

text \<open>The claims \<open>BuildToken\<close> puts into the token of a user.\<close>

definition tokenClaims :: "User \<Rightarrow> MapClaims" where
  "tokenClaims user = [(''email'', JString (Email user)), (''name'', JString (Name user))]"

text \<open>The two halves of \<open>Save\<close>: the state once the \<open>PutItem\<close> of the transaction has
  gone through, and the steps that follow it (the parse of the \<open>accountId\<close>, the read of
  the account, the balance update), with the error they end in.\<close>

definition persisted :: "libs \<Rightarrow> Transaction \<Rightarrow> world \<Rightarrow> world" where
  "persisted L t0 w =
     (let (u, w0) = NewV4 w;
          t = t0\<lparr>TransactionId := uuid_String L u\<rparr>;
          (ok, w1) = Send (PutItem ''Transactions'' [AccountId_t t, TransactionId t]) w0
      in w1\<lparr>Transactions := put_item txn_key t (Transactions w1)\<rparr>)"

definition balance_update :: "libs \<Rightarrow> uuid \<Rightarrow> Transaction \<Rightarrow> world \<Rightarrow> error option \<times> world" where
  "balance_update L bankId t w2 =
     (case uuid_FromString L (AccountId_t t) of
        None \<Rightarrow> (Some (ValidationError (AccountId_t t)), w2)
      | Some acctId \<Rightarrow>
          (case GetUserBankAccount L bankId acctId w2 of
             (Inl e, w3) \<Rightarrow> (Some e, w3)
           | (Inr bankAccount, w3) \<Rightarrow>
               UpdateCurrentBalance bankAccount (Amount t) (TransactionType t) w3))"

section \<open>Facts about the store\<close>

lemma find_map_upd_same:
  assumes "\<And>x. key (f x) = key x"
  shows "find (\<lambda>x. key x = k) (map (\<lambda>x. if key x = k then f x else x) tbl) =
         map_option f (find (\<lambda>x. key x = k) tbl)"
  using assms by (induction tbl) auto


lemma get_item_update_item_same:
  assumes "\<And>x. key (f x) = key x" and "key blank = k"
  shows "get_item key k (update_item key k f blank tbl) =
         Some (f (case get_item key k tbl of None \<Rightarrow> blank | Some y \<Rightarrow> y))"
  using assms
  by (simp add: get_item_def update_item_def find_map_upd_same split: option.splits)



lemma get_item_put_item: "get_item key (key x) (put_item key x tbl) = Some x"
  by (simp add: get_item_def put_item_def)

lemma Send_fields [simp]:
  "Users (snd (Send r w)) = Users w"
  "BankAccounts (snd (Send r w)) = BankAccounts w"
  "Cards (snd (Send r w)) = Cards w"
  "Transactions (snd (Send r w)) = Transactions w"
  "requests (snd (Send r w)) = requests w @ [r]"
  "rng (snd (Send r w)) = rng w"
  "drawn (snd (Send r w)) = drawn w"
  "authSecret (snd (Send r w)) = authSecret w"
  "clock (snd (Send r w)) = clock w"
  by (simp_all add: Send_def split: list.splits)

lemma Send_reachable: "reachable w \<Longrightarrow> fst (Send r w) = accepted r"
  by (simp add: Send_def reachable_def split: list.splits)

lemma up_reachable: "up w \<Longrightarrow> reachable w"
  by (cases "outages w") (auto simp: up_def reachable_def)


lemma list_all_tl [simp]: "list_all P xs \<Longrightarrow> list_all P (tl xs)"
  by (cases xs) auto

lemma up_outages [simp]: "up w \<Longrightarrow> list_all (\<lambda>b. \<not> b) (outages w)"
  by (simp add: up_def)

lemma up_fields [simp]:
  "up (w\<lparr>requests := rs\<rparr>) = up w"
  "up (w\<lparr>BankAccounts := as\<rparr>) = up w"
  "up (w\<lparr>Transactions := ts\<rparr>) = up w"
  "up (w\<lparr>Cards := cs\<rparr>) = up w"
  "up (w\<lparr>Users := us\<rparr>) = up w"
  "up (w\<lparr>drawn := n\<rparr>) = up w"
  "up (w\<lparr>outages := bs\<rparr>) = list_all (\<lambda>b. \<not> b) bs"
  by (simp_all add: up_def)



section \<open>Facts about the sample inputs\<close>

lemma sample_String [simp]: "uuid_String sample_libs (UUID s) = s"
  by (simp add: sample_libs_def)


lemma sample_FromString_bank0: "uuid_FromString sample_libs bank0 = Some (UUID bank0)"
  by code_simp


lemma reachable_sample_world [simp]: "reachable sample_world"
  by (simp add: reachable_def sample_world_def)

section \<open>The balance delta\<close>

text \<open>
  C10. The delta \<open>UpdateCurrentBalance\<close> applies is asymmetric. With the store reachable
  and the receiver's key non-empty, the update succeeds and the balance stored at the
  receiver's key is the receiver's balance minus the absolute value of the amount for a
  CREDIT, and the receiver's balance plus the signed amount as given for any other type.
  So a negative CREDIT amount still lowers the balance, and a negative DEBIT amount
  lowers it too.
\<close>

theorem UpdateCurrentBalance_delta:
  assumes "reachable w" and "BankId a \<noteq> []" and "AccountId a \<noteq> []"
  shows "\<exists>w' a'. UpdateCurrentBalance a amt ty w = (None, w') \<and>
           get_item acct_key (BankId a, AccountId a) (BankAccounts w') = Some a' \<and>
           (ty = ''CREDIT'' \<longrightarrow> CurrentBalance a' = CurrentBalance a - \<bar>amt\<bar>) \<and>
           (ty \<noteq> ''CREDIT'' \<longrightarrow> CurrentBalance a' = CurrentBalance a + amt)"
  using assms
  by (simp add: UpdateCurrentBalance_def Send_reachable Let_def case_prod_beta
      get_item_update_item_same acct_key_def)

theorem UpdateCurrentBalance_delta_witness:
  "(\<exists>w' a'. UpdateCurrentBalance sample_account (- 5) ''CREDIT'' sample_world = (None, w') \<and>
       get_item acct_key (bank0, acct0) (BankAccounts w') = Some a' \<and> CurrentBalance a' = 95) \<and>
   (\<exists>w' a'. UpdateCurrentBalance sample_account (- 5) ''DEBIT'' sample_world = (None, w') \<and>
       get_item acct_key (bank0, acct0) (BankAccounts w') = Some a' \<and> CurrentBalance a' = 95)"
proof -
  have k: "BankId sample_account \<noteq> []" "AccountId sample_account \<noteq> []"
    by (simp_all add: sample_account_def bank0_def acct0_def)
  have d: "''DEBIT'' \<noteq> ''CREDIT''" by simp
  show ?thesis
    using UpdateCurrentBalance_delta [OF reachable_sample_world k, of "- 5" "''CREDIT''"]
      UpdateCurrentBalance_delta [OF reachable_sample_world k, of "- 5" "''DEBIT''"] d
    by (simp add: sample_account_def)
qed

section \<open>The balance after a series of postings\<close>







section \<open>Listing the transactions of an account\<close>

lemma mset_sort_insert: "mset (sort_insert lt x xs) = add_mset x (mset xs)"
  by (induction xs) auto

lemma mset_sort_Slice: "mset (sort_Slice lt xs) = mset xs"
  by (induction xs) (auto simp: mset_sort_insert)

lemma set_sort_insert: "set (sort_insert lt x xs) = insert x (set xs)"
  by (induction xs) auto

lemma sorted_sort_insert:
  fixes f :: "'a \<Rightarrow> int"
  assumes "sorted (map f xs)"
  shows "sorted (map f (sort_insert (\<lambda>a b. Before (f a) (f b)) x xs))"
  using assms by (induction xs) (auto simp: set_sort_insert Before_def)

lemma sorted_sort_Slice:
  fixes f :: "'a \<Rightarrow> int"
  shows "sorted (map f (sort_Slice (\<lambda>a b. Before (f a) (f b)) xs))"
  by (induction xs) (auto simp: sorted_sort_insert)

text \<open>
  C5. With the store reachable and the identifier's text non-empty,
  \<open>GetAccountTransactions\<close> returns exactly the stored transactions whose \<open>accountId\<close>
  is the text of the given identifier (the same items with the same multiplicities), in
  a sequence whose transaction dates never decrease. The sequence of dates is the sorted
  sequence of the dates stored, so it does not depend on the order in which the table
  holds the items. Nothing is said of the order among equal dates.
\<close>

theorem GetAccountTransactions_sorted:
  assumes "reachable w" and "uuid_String L accountId \<noteq> []"
  shows "\<exists>ts w'. GetAccountTransactions L accountId w = (Inr ts, w') \<and>
           mset ts = mset (filter (\<lambda>t. AccountId_t t = uuid_String L accountId) (Transactions w)) \<and>
           sorted (map TransactionDate ts) \<and>
           map TransactionDate ts =
             sort (map TransactionDate
               (filter (\<lambda>t. AccountId_t t = uuid_String L accountId) (Transactions w)))"
proof -
  let ?own = "filter (\<lambda>t. AccountId_t t = uuid_String L accountId) (Transactions w)"
  let ?ts = "sort_Slice (\<lambda>ti tj. Before (TransactionDate ti) (TransactionDate tj)) ?own"
  have m: "mset ?ts = mset ?own" by (rule mset_sort_Slice)
  have s: "sorted (map TransactionDate ?ts)" by (rule sorted_sort_Slice)
  have "mset (map TransactionDate ?ts) = mset (map TransactionDate ?own)"
    using m by simp
  from properties_for_sort [OF this s]
  have d: "map TransactionDate ?ts = sort (map TransactionDate ?own)"
    by simp
  have "GetAccountTransactions L accountId w =
          (Inr ?ts, snd (Send (Query ''Transactions'' (uuid_String L accountId)) w))"
    using assms
    by (simp add: GetAccountTransactions_def Send_reachable Let_def case_prod_beta)
  with m s d show ?thesis by simp
qed

theorem GetAccountTransactions_sorted_witness:
  "\<exists>ts w'. GetAccountTransactions sample_libs (UUID acct0) ledger_world = (Inr ts, w') \<and>
     map TransactionId ts = [''t1'', ''t2'', ''t3''] \<and> map TransactionDate ts = [10, 20, 30]"
proof -
  have u: "reachable ledger_world" by (simp add: reachable_def ledger_world_def sample_world_def)
  have e: "fst (GetAccountTransactions sample_libs (UUID acct0) ledger_world) =
     Inr [(txn acct0 10 5 ''CREDIT'')\<lparr>TransactionId := ''t1''\<rparr>,
          (txn acct0 20 6 ''DEBIT'')\<lparr>TransactionId := ''t2''\<rparr>,
          (txn acct0 30 7 ''DEBIT'')\<lparr>TransactionId := ''t3''\<rparr>]"
    by code_simp
  have n: "uuid_String sample_libs (UUID acct0) \<noteq> []" by (simp add: acct0_def)
  from GetAccountTransactions_sorted [OF u n] obtain ts w' where
    g: "GetAccountTransactions sample_libs (UUID acct0) ledger_world = (Inr ts, w')" by blast
  with e have "map TransactionId ts = [''t1'', ''t2'', ''t3''] \<and> map TransactionDate ts = [10, 20, 30]"
    by (auto simp: txn_def)
  with g show ?thesis by (intro exI [of _ ts] exI [of _ w']) simp
qed

section \<open>The active card of an account\<close>

text \<open>
  C8. With the store reachable and the identifier's text non-empty,
  \<open>GetActiveAccountCard\<close> returns no error. When no stored
  card of the account has \<open>active = true\<close> the card returned is nil; when some stored
  card of the account is active, the card returned is a stored card of that account with
  \<open>active = true\<close>.
\<close>

theorem GetActiveAccountCard_result:
  assumes "reachable w" and "uuid_String L accountId \<noteq> []"
  shows "\<exists>r w'. GetActiveAccountCard L accountId w = (Inr r, w') \<and>
     ((\<forall>c \<in> set (Cards w). \<not> (AccountId_c c = uuid_String L accountId \<and> Active c)) \<longrightarrow> r = None) \<and>
     ((\<exists>c \<in> set (Cards w). AccountId_c c = uuid_String L accountId \<and> Active c) \<longrightarrow>
        (\<exists>c. r = Some c \<and> c \<in> set (Cards w) \<and> Active c \<and> AccountId_c c = uuid_String L accountId))"
proof (cases "filter (\<lambda>c. AccountId_c c = uuid_String L accountId \<and> Active c = True) (Cards w)")
  case Nil
  then have "\<forall>c \<in> set (Cards w). \<not> (AccountId_c c = uuid_String L accountId \<and> Active c)"
    by (auto simp: filter_empty_conv)
  with Nil assms show ?thesis
    by (auto simp add: GetActiveAccountCard_def Send_reachable Let_def case_prod_beta)
next
  case (Cons c cs)
  then have "c \<in> set (filter (\<lambda>c. AccountId_c c = uuid_String L accountId \<and> Active c = True) (Cards w))"
    by simp
  then have "c \<in> set (Cards w) \<and> Active c \<and> AccountId_c c = uuid_String L accountId"
    by auto
  with Cons assms show ?thesis
    by (auto simp add: GetActiveAccountCard_def Send_reachable Let_def case_prod_beta)
qed

theorem GetActiveAccountCard_result_witness:
  "(\<exists>w'. GetActiveAccountCard sample_libs (UUID acct0) cardless_world = (Inr None, w')) \<and>
   (\<exists>c w'. GetActiveAccountCard sample_libs (UUID acct0) sample_world = (Inr (Some c), w') \<and>
      c \<in> set [card_A, card_B] \<and> Active c \<and> AccountId_c c = acct0)"
proof -
  have u: "reachable cardless_world"
    by (simp add: reachable_def cardless_world_def sample_world_def)
  have n: "\<forall>c \<in> set (Cards cardless_world).
      \<not> (AccountId_c c = uuid_String sample_libs (UUID acct0) \<and> Active c)"
    by (simp add: cardless_world_def sample_world_def)
  have a: "\<exists>c \<in> set (Cards sample_world).
      AccountId_c c = uuid_String sample_libs (UUID acct0) \<and> Active c"
    by (simp add: sample_world_def card_A_def)
  have cs: "Cards sample_world = [card_A, card_B]" by (simp add: sample_world_def)
  have ne: "uuid_String sample_libs (UUID acct0) \<noteq> []" by (simp add: acct0_def)
  from GetActiveAccountCard_result [OF u ne] n
  have 1: "\<exists>w'. GetActiveAccountCard sample_libs (UUID acct0) cardless_world = (Inr None, w')"
    by blast
  from GetActiveAccountCard_result [OF reachable_sample_world ne] a
  have 2: "\<exists>c w'. GetActiveAccountCard sample_libs (UUID acct0) sample_world = (Inr (Some c), w') \<and>
      c \<in> set (Cards sample_world) \<and> Active c \<and> AccountId_c c = uuid_String sample_libs (UUID acct0)"
    by blast
  from 1 2 show ?thesis unfolding cs sample_String by blast
qed

section \<open>Inactivating a card\<close>






section \<open>A posting whose balance update fails\<close>

lemma GetUserBankAccount_frame:
  "GetUserBankAccount L b k w = (r, w') \<Longrightarrow>
     Transactions w' = Transactions w \<and> BankAccounts w' = BankAccounts w \<and>
     requests w' = requests w @ [GetItem ''BankAccounts'' [uuid_String L b, uuid_String L k]]"
  by (auto simp add: GetUserBankAccount_def Let_def case_prod_beta split: if_splits)

lemma UpdateCurrentBalance_fails:
  "UpdateCurrentBalance a amt ty w = (Some e, w') \<Longrightarrow>
     Transactions w' = Transactions w \<and> BankAccounts w' = BankAccounts w \<and>
     requests w' = requests w @ [UpdateItem ''BankAccounts'' [BankId a, AccountId a]]"
  by (auto simp add: UpdateCurrentBalance_def Let_def case_prod_beta split: if_splits)

lemma Save_error_frame:
  assumes "reachable w" and "AccountId_t t \<noteq> []" and "uuid_String L (rng w (drawn w)) \<noteq> []"
    and "Save L bankId t w = (Inl e, w')"
  shows "get_item txn_key (AccountId_t t, uuid_String L (rng w (drawn w))) (Transactions w') =
           Some (t\<lparr>TransactionId := uuid_String L (rng w (drawn w))\<rparr>) \<and>
         BankAccounts w' = BankAccounts w \<and>
         (\<exists>rest. requests w' = requests w @
              PutItem ''Transactions'' [AccountId_t t, uuid_String L (rng w (drawn w))] # rest \<and>
            (rest = [] \<or> (\<exists>k. rest = [GetItem ''BankAccounts'' k]) \<or>
             (\<exists>k k'. rest = [GetItem ''BankAccounts'' k, UpdateItem ''BankAccounts'' k'])))"
proof -
  let ?t = "t\<lparr>TransactionId := uuid_String L (rng w (drawn w))\<rparr>"
  let ?put = "PutItem ''Transactions'' [AccountId_t t, uuid_String L (rng w (drawn w))]"
  let ?w0 = "w\<lparr>drawn := Suc (drawn w)\<rparr>"
  obtain ok w1 where s: "Send ?put ?w0 = (ok, w1)" by fastforce
  have "reachable ?w0" using assms(1) by (simp add: reachable_def)
  from Send_reachable [OF this, of ?put] s assms(2,3) have ok: "ok" by simp
  have w1: "Transactions w1 = Transactions w" "BankAccounts w1 = BankAccounts w"
    "requests w1 = requests w @ [?put]"
    using Send_fields [of ?put ?w0] s by simp_all
  let ?w2 = "w1\<lparr>Transactions := put_item txn_key ?t (Transactions w1)\<rparr>"
  have g: "get_item txn_key (AccountId_t t, uuid_String L (rng w (drawn w))) (Transactions ?w2) = Some ?t"
    using get_item_put_item [of txn_key ?t] by (simp add: txn_key_def)
  show ?thesis
  proof (cases "uuid_FromString L (AccountId_t t)")
    case None
    with assms(4) s ok have "w' = ?w2"
      by (simp add: Save_def NewV4_def Let_def)
    with g w1 show ?thesis by simp
  next
    case (Some acctId)
    obtain r3 w3 where g3: "GetUserBankAccount L bankId acctId ?w2 = (r3, w3)" by fastforce
    from GetUserBankAccount_frame [OF g3] have w3: "Transactions w3 = Transactions ?w2"
      "BankAccounts w3 = BankAccounts w" 
      "requests w3 = requests w @ [?put, GetItem ''BankAccounts'' [uuid_String L bankId, uuid_String L acctId]]"
      using w1 by simp_all
    show ?thesis
    proof (cases r3)
      case (Inl e3)
      with assms(4) s ok Some g3 have "w' = w3"
        by (simp add: Save_def NewV4_def Let_def)
      with g w3 show ?thesis by simp
    next
      case (Inr a)
      obtain r4 w4 where u4: "UpdateCurrentBalance a (Amount t) (TransactionType t) w3 = (r4, w4)"
        by fastforce
      with assms(4) s ok Some g3 Inr obtain e4 where r4: "r4 = Some e4" and "w' = w4"
        by (cases r4) (simp_all add: Save_def NewV4_def Let_def)
      with UpdateCurrentBalance_fails [of a "Amount t" "TransactionType t" w3 e4 w4] u4 g w3
      show ?thesis by simp
    qed
  qed
qed

lemma Save_after_put:
  assumes "reachable w" and "AccountId_t t \<noteq> []" and "uuid_String L (rng w (drawn w)) \<noteq> []"
  shows "Save L bankId t w =
     (case balance_update L bankId (t\<lparr>TransactionId := uuid_String L (rng w (drawn w))\<rparr>)
             (persisted L t w) of
        (Some e, w') \<Rightarrow> (Inl e, w')
      | (None, w') \<Rightarrow> (Inr (t\<lparr>TransactionId := uuid_String L (rng w (drawn w))\<rparr>), w'))"
proof -
  let ?put = "PutItem ''Transactions'' [AccountId_t t, uuid_String L (rng w (drawn w))]"
  let ?w0 = "w\<lparr>drawn := Suc (drawn w)\<rparr>"
  have "reachable ?w0" using assms(1) by (simp add: reachable_def)
  from Send_reachable [OF this, of ?put] assms(2,3) have ok: "fst (Send ?put ?w0)" by simp
  show ?thesis
    using ok
    by (simp add: Save_def persisted_def balance_update_def NewV4_def Let_def case_prod_beta
        split: option.splits sum.splits)
qed

text \<open>
  C6. Let the \<open>PutItem\<close> of \<open>Save\<close> go through (the store reachable for it, the key
  non-empty) and let the steps that follow it, which update the balance, end in an
  error. Then \<open>Save\<close> returns that error to its caller; the transaction, with the id it
  was given, is in the transaction table of the final state; the bank accounts are
  exactly as before, so no balance moved; and the requests sent are the \<open>PutItem\<close>,
  followed by nothing, or by the \<open>GetItem\<close> of the account, or by that and one
  \<open>UpdateItem\<close> of the account: no request deletes the transaction, and none is sent
  twice.
\<close>

theorem Save_partial_failure:
  assumes "reachable w" and "AccountId_t t \<noteq> []" and "uuid_String L (rng w (drawn w)) \<noteq> []"
    and "balance_update L bankId (t\<lparr>TransactionId := uuid_String L (rng w (drawn w))\<rparr>)
           (persisted L t w) = (Some e, w')"
  shows "Save L bankId t w = (Inl e, w') \<and>
         get_item txn_key (AccountId_t t, uuid_String L (rng w (drawn w))) (Transactions w') =
           Some (t\<lparr>TransactionId := uuid_String L (rng w (drawn w))\<rparr>) \<and>
         BankAccounts w' = BankAccounts w \<and>
         (\<exists>rest. requests w' = requests w @
              PutItem ''Transactions'' [AccountId_t t, uuid_String L (rng w (drawn w))] # rest \<and>
            (rest = [] \<or> (\<exists>k. rest = [GetItem ''BankAccounts'' k]) \<or>
             (\<exists>k k'. rest = [GetItem ''BankAccounts'' k, UpdateItem ''BankAccounts'' k'])))"
proof -
  have "Save L bankId t w = (Inl e, w')"
    using Save_after_put [OF assms(1,2,3), of bankId] assms(4) by simp
  with Save_error_frame [OF assms(1,2,3) this] show ?thesis by simp
qed

theorem Save_partial_failure_witness:
  "fst (Save sample_libs (UUID bank0) (txn acct0 1 50 ''DEBIT'') failing_world) = Inl PersistenceError \<and>
   get_item txn_key (acct0, ''00000000-0000-4000-8000-000000000001'')
     (Transactions (snd (Save sample_libs (UUID bank0) (txn acct0 1 50 ''DEBIT'') failing_world))) =
     Some ((txn acct0 1 50 ''DEBIT'')\<lparr>TransactionId := ''00000000-0000-4000-8000-000000000001''\<rparr>) \<and>
   BankAccounts (snd (Save sample_libs (UUID bank0) (txn acct0 1 50 ''DEBIT'') failing_world)) =
     [sample_account] \<and>
   requests (snd (Save sample_libs (UUID bank0) (txn acct0 1 50 ''DEBIT'') failing_world)) =
     [PutItem ''Transactions'' [acct0, ''00000000-0000-4000-8000-000000000001''],
      GetItem ''BankAccounts'' [bank0, acct0], UpdateItem ''BankAccounts'' [bank0, acct0]]"
proof -
  let ?t = "txn acct0 1 50 ''DEBIT''"
  let ?S = "Save sample_libs (UUID bank0) ?t failing_world"
  let ?B = "balance_update sample_libs (UUID bank0)
     (?t\<lparr>TransactionId := uuid_String sample_libs (rng failing_world (drawn failing_world))\<rparr>)
     (persisted sample_libs ?t failing_world)"
  have e: "fst ?B = Some PersistenceError" by code_simp
  then have s: "?B = (Some PersistenceError, snd ?B)" by (metis prod.collapse)
  have q: "requests (snd ?S) =
     [PutItem ''Transactions'' [acct0, ''00000000-0000-4000-8000-000000000001''],
      GetItem ''BankAccounts'' [bank0, acct0], UpdateItem ''BankAccounts'' [bank0, acct0]]"
    by code_simp
  have r: "reachable failing_world" by (simp add: reachable_def failing_world_def)
  have a: "AccountId_t ?t \<noteq> []" by (simp add: txn_def acct0_def)
  have i: "uuid_String sample_libs (rng failing_world (drawn failing_world)) =
     ''00000000-0000-4000-8000-000000000001''"
    by (simp add: failing_world_def sample_world_def sample_rng_def)
  then have n: "uuid_String sample_libs (rng failing_world (drawn failing_world)) \<noteq> []" by simp
  have b: "BankAccounts failing_world = [sample_account]"
    by (simp add: failing_world_def sample_world_def)
  have x: "AccountId_t ?t = acct0" by (simp add: txn_def)
  from Save_partial_failure [OF r a n s] have
    1: "?S = (Inl PersistenceError, snd ?B)" and
    2: "get_item txn_key (AccountId_t ?t,
           uuid_String sample_libs (rng failing_world (drawn failing_world)))
         (Transactions (snd ?B)) =
         Some (?t\<lparr>TransactionId :=
           uuid_String sample_libs (rng failing_world (drawn failing_world))\<rparr>)" and
    3: "BankAccounts (snd ?B) = BankAccounts failing_world"
    by blast+
  from 1 have f: "fst ?S = Inl PersistenceError" and sn: "snd ?S = snd ?B" by simp_all
  from q sn have q': "requests (snd ?B) =
     [PutItem ''Transactions'' [acct0, ''00000000-0000-4000-8000-000000000001''],
      GetItem ''BankAccounts'' [bank0, acct0], UpdateItem ''BankAccounts'' [bank0, acct0]]"
    by simp
  show ?thesis unfolding f sn using 2 3 q' by (simp add: i x b)
qed

section \<open>Tokens\<close>

lemma dot_not_base64: "CHR ''.'' \<notin> set ''ABCDEFGHIJKLMNOPQRSTUVWXYZabcdefghijklmnopqrstuvwxyz0123456789-_''"
  by simp

lemma space_not_base64: "CHR '' '' \<notin> set ''ABCDEFGHIJKLMNOPQRSTUVWXYZabcdefghijklmnopqrstuvwxyz0123456789-_''"
  by simp

lemma base64url_no_dot: "base64url s \<Longrightarrow> CHR ''.'' \<notin> set s"
  unfolding base64url_def list_all_iff using dot_not_base64 by blast

lemma base64url_no_space: "base64url s \<Longrightarrow> CHR '' '' \<notin> set s"
  unfolding base64url_def list_all_iff using space_not_base64 by blast

lemma replace_from_skip: "replace_from old new (length xs) (xs @ ys) = replace_from old new 0 ys"
  by (induction xs) auto

lemma replace_from_no_match:
  assumes "ch \<in> set old" and "ch \<notin> set s"
  shows "replace_from old new 0 s = s"
  using assms(2)
proof (induction s)
  case Nil
  then show ?case by simp
next
  case (Cons c s)
  have "\<not> prefix old (c # s)"
  proof
    assume "prefix old (c # s)"
    then have "set old \<subseteq> set (c # s)" by (rule set_mono_prefix)
    with Cons.prems assms(1) show False by auto
  qed
  with Cons show ?case by simp
qed

lemma strings_Split_none: "sep \<notin> set s \<Longrightarrow> strings_Split s sep = [s]"
  by (induction s) auto

lemma strings_Split_append:
  "sep \<notin> set a \<Longrightarrow> strings_Split (a @ sep # rest) sep = a # strings_Split rest sep"
  by (induction a) auto

lemma strings_Split_three:
  assumes "sep \<notin> set a" and "sep \<notin> set b" and "sep \<notin> set c"
  shows "strings_Split (a @ sep # b @ sep # c) sep = [a, b, c]"
  using assms by (simp add: strings_Split_append strings_Split_none)

lemma replace_from_match:
  assumes "old = c # rest"
  shows "replace_from old new 0 (old @ ys) = new @ replace_from old new 0 ys"
proof -
  have "replace_from old new 0 (c # (rest @ ys)) =
          new @ replace_from old new (length rest) (rest @ ys)"
    using assms by simp
  then show ?thesis using assms by (simp add: replace_from_skip)
qed

lemma strings_Replace_bearer:
  assumes "CHR '' '' \<notin> set tok"
  shows "strings_Replace (bearerTokenKey @ tok) bearerTokenKey [] = tok"
proof -
  have ne: "bearerTokenKey = CHR ''B'' # ''earer ''" by (simp add: bearerTokenKey_def)
  have sp: "CHR '' '' \<in> set bearerTokenKey" by (simp add: bearerTokenKey_def)
  have "replace_from bearerTokenKey [] 0 (bearerTokenKey @ tok) =
          [] @ replace_from bearerTokenKey [] 0 tok"
    using ne by (rule replace_from_match)
  also have "\<dots> = tok" using replace_from_no_match [OF sp assms] by simp
  finally show ?thesis by (simp add: strings_Replace_def)
qed

lemma MapClaims_Valid_tokenClaims [simp]: "MapClaims_Valid (tokenClaims user) now"
  by (simp add: MapClaims_Valid_def tokenClaims_def)

lemma BuildToken_eq:
  "BuildToken L w user =
     Inr (jwt_EncodeHeader L ''HS256'' @ CHR ''.'' # jwt_EncodeClaims L (tokenClaims user) @
            CHR ''.'' # hmac_Sign L ''HS256'' (authSecret w)
               (jwt_EncodeHeader L ''HS256'' @ CHR ''.'' # jwt_EncodeClaims L (tokenClaims user)),
          clock w + 60 * Minute)"
  by (simp add: BuildToken_def Let_def tokenClaims_def tokenExpiryMin_def)

lemma HS256_methods:
  "''HS256'' \<in> set signingMethods" "''HS256'' \<in> set SigningMethodHMAC"
  by (simp_all add: signingMethods_def SigningMethodHMAC_def)

lemma jwt_Parse_issued:
  assumes h: "base64url h" and c: "base64url c" and s: "base64url sig"
    and dh: "jwt_DecodeHeader L h = Some ''HS256''"
    and dc: "jwt_DecodeClaims L c = Some claims"
    and v: "MapClaims_Valid claims unix"
    and k: "keyFunc ''HS256'' = Inr key"
  shows "jwt_Parse L unix (h @ CHR ''.'' # c @ CHR ''.'' # sig) keyFunc =
         (if hmac_Sign L ''HS256'' key (h @ ''.'' @ c) = sig
          then Inr \<lparr>Method = ''HS256'', Claims = claims, Signature = sig, Valid = True\<rparr>
          else Inl (AuthError ''signature is invalid''))"
proof -
  have sp: "strings_Split (h @ CHR ''.'' # c @ CHR ''.'' # sig) (CHR ''.'') = [h, c, sig]"
    using base64url_no_dot [OF h] base64url_no_dot [OF c] base64url_no_dot [OF s]
    by (rule strings_Split_three)
  show ?thesis
    unfolding jwt_Parse_def sp using dh dc v k HS256_methods(1) by simp
qed

lemma ValidateToken_issued:
  assumes h: "base64url (jwt_EncodeHeader L ''HS256'')"
    and c: "base64url (jwt_EncodeClaims L (tokenClaims user))"
    and s: "base64url sig"
    and dh: "jwt_DecodeHeader L (jwt_EncodeHeader L ''HS256'') = Some ''HS256''"
    and dc: "jwt_DecodeClaims L (jwt_EncodeClaims L (tokenClaims user)) = Some (tokenClaims user)"
  shows "ValidateToken L w' (Some (bearerTokenKey @ jwt_EncodeHeader L ''HS256'' @ CHR ''.'' #
            jwt_EncodeClaims L (tokenClaims user) @ CHR ''.'' # sig)) =
         (if hmac_Sign L ''HS256'' (authSecret w')
               (jwt_EncodeHeader L ''HS256'' @ ''.'' @ jwt_EncodeClaims L (tokenClaims user)) = sig
          then Inr (tokenClaims user) else Inl (AuthError ''signature is invalid''))"
proof -
  let ?h = "jwt_EncodeHeader L ''HS256''" and ?c = "jwt_EncodeClaims L (tokenClaims user)"
  let ?tok = "?h @ CHR ''.'' # ?c @ CHR ''.'' # sig"
  let ?kf = "\<lambda>alg. if alg \<notin> set SigningMethodHMAC
       then Inl (AuthError ''there was an parsing the given token. please validate the token is for this service'')
       else Inr (authSecret w')"
  have "CHR '' '' \<notin> set ?tok"
    using base64url_no_space [OF h] base64url_no_space [OF c] base64url_no_space [OF s] by simp
  then have r: "strings_Replace (bearerTokenKey @ ?tok) bearerTokenKey [] = ?tok"
    by (rule strings_Replace_bearer)
  have p: "prefix bearerTokenKey (bearerTokenKey @ ?tok)" by simp
  have ne: "bearerTokenKey @ ?tok \<noteq> []" by simp
  have k: "?kf ''HS256'' = Inr (authSecret w')"
    using HS256_methods(2) by (simp only: not_True_eq_False if_False simp_thms)
  have pz: "jwt_Parse L (clock w' div 1000000000) ?tok ?kf =
         (if hmac_Sign L ''HS256'' (authSecret w') (?h @ ''.'' @ ?c) = sig
          then Inr \<lparr>Method = ''HS256'', Claims = tokenClaims user, Signature = sig, Valid = True\<rparr>
          else Inl (AuthError ''signature is invalid''))"
    using h c s dh dc MapClaims_Valid_tokenClaims k by (rule jwt_Parse_issued)
  show ?thesis
    unfolding ValidateToken_def
    by (simp only: option.case ne p r pz Let_def if_False if_True not_True_eq_False simp_thms)
       (cases "hmac_Sign L ''HS256'' (authSecret w') (?h @ ''.'' @ ?c) = sig"; simp)
qed

lemma token_other_secret:
  assumes "base64url (jwt_EncodeHeader L ''HS256'')"
    and "base64url (jwt_EncodeClaims L (tokenClaims user))"
    and "base64url (hmac_Sign L ''HS256'' (authSecret w)
            (jwt_EncodeHeader L ''HS256'' @ ''.'' @ jwt_EncodeClaims L (tokenClaims user)))"
    and "jwt_DecodeHeader L (jwt_EncodeHeader L ''HS256'') = Some ''HS256''"
    and "jwt_DecodeClaims L (jwt_EncodeClaims L (tokenClaims user)) = Some (tokenClaims user)"
    and "hmac_Sign L ''HS256'' secret'
            (jwt_EncodeHeader L ''HS256'' @ ''.'' @ jwt_EncodeClaims L (tokenClaims user)) \<noteq>
         hmac_Sign L ''HS256'' (authSecret w)
            (jwt_EncodeHeader L ''HS256'' @ ''.'' @ jwt_EncodeClaims L (tokenClaims user))"
  shows "\<exists>tok. BuildToken L w user = Inr (tok, clock w + 60 * Minute) \<and>
           ValidateToken L (w\<lparr>authSecret := secret'\<rparr>) (Some (bearerTokenKey @ tok)) =
             Inl (AuthError ''signature is invalid'')"
proof -
  let ?sig = "hmac_Sign L ''HS256'' (authSecret w)
            (jwt_EncodeHeader L ''HS256'' @ ''.'' @ jwt_EncodeClaims L (tokenClaims user))"
  have "ValidateToken L (w\<lparr>authSecret := secret'\<rparr>) (Some (bearerTokenKey @ jwt_EncodeHeader L ''HS256'' @ CHR ''.'' #
            jwt_EncodeClaims L (tokenClaims user) @ CHR ''.'' # ?sig)) = Inl (AuthError ''signature is invalid'')"
    using ValidateToken_issued [OF assms(1,2,3,4,5), of "w\<lparr>authSecret := secret'\<rparr>"] assms(6)
    by simp
  then show ?thesis by (simp add: BuildToken_eq)
qed

lemma sample_codec:
  "base64url (jwt_EncodeHeader sample_libs ''HS256'')"
  "base64url (jwt_EncodeClaims sample_libs (tokenClaims user0))"
  "base64url (hmac_Sign sample_libs ''HS256'' (authSecret sample_world)
            (jwt_EncodeHeader sample_libs ''HS256'' @ ''.'' @ jwt_EncodeClaims sample_libs (tokenClaims user0)))"
  "jwt_DecodeHeader sample_libs (jwt_EncodeHeader sample_libs ''HS256'') = Some ''HS256''"
  "jwt_DecodeClaims sample_libs (jwt_EncodeClaims sample_libs (tokenClaims user0)) = Some (tokenClaims user0)"
  by code_simp+

text \<open>
  C2. The token \<open>BuildToken\<close> issues carries the claims \<open>email\<close> and \<open>name\<close> and no
  expiry; the expiry is only returned next to it. So, whenever the library's codings
  give base64url segments and decode what they encoded, the token issued for a user
  validates at every time whatsoever, also after the 60 minutes, and the claims returned
  hold the user's email: the part of the claim that says validation fails once the TTL
  has elapsed does not hold of the code.
\<close>

theorem token_never_expires:
  assumes "base64url (jwt_EncodeHeader L ''HS256'')"
    and "base64url (jwt_EncodeClaims L (tokenClaims user))"
    and "base64url (hmac_Sign L ''HS256'' (authSecret w)
            (jwt_EncodeHeader L ''HS256'' @ ''.'' @ jwt_EncodeClaims L (tokenClaims user)))"
    and "jwt_DecodeHeader L (jwt_EncodeHeader L ''HS256'') = Some ''HS256''"
    and "jwt_DecodeClaims L (jwt_EncodeClaims L (tokenClaims user)) = Some (tokenClaims user)"
  shows "\<exists>tok. BuildToken L w user = Inr (tok, clock w + 60 * Minute) \<and>
           (\<forall>now. ValidateToken L (w\<lparr>clock := now\<rparr>) (Some (bearerTokenKey @ tok)) =
                    Inr (tokenClaims user))"
proof -
  let ?sig = "hmac_Sign L ''HS256'' (authSecret w)
            (jwt_EncodeHeader L ''HS256'' @ ''.'' @ jwt_EncodeClaims L (tokenClaims user))"
  have "ValidateToken L (w\<lparr>clock := now\<rparr>) (Some (bearerTokenKey @ jwt_EncodeHeader L ''HS256'' @ CHR ''.'' #
            jwt_EncodeClaims L (tokenClaims user) @ CHR ''.'' # ?sig)) = Inr (tokenClaims user)" for now
    using ValidateToken_issued [OF assms(1,2,3,4,5), of "w\<lparr>clock := now\<rparr>"] by simp
  then show ?thesis by (simp add: BuildToken_eq)
qed

theorem token_never_expires_witness:
  "BuildToken sample_libs sample_world user0 = Inr (sample_token, 3600000000000) \<and>
   ValidateToken sample_libs (sample_world\<lparr>clock := 3600000000001\<rparr>)
     (Some (bearerTokenKey @ sample_token)) =
     Inr [(''email'', JString ''a@x.com''), (''name'', JString ''A'')]"
proof -
  have b: "BuildToken sample_libs sample_world user0 = Inr (sample_token, 3600000000000)"
    by code_simp
  from token_never_expires [OF sample_codec] obtain tok where
    1: "BuildToken sample_libs sample_world user0 = Inr (tok, clock sample_world + 60 * Minute)" and
    2: "\<forall>now. ValidateToken sample_libs (sample_world\<lparr>clock := now\<rparr>)
           (Some (bearerTokenKey @ tok)) = Inr (tokenClaims user0)"
    by blast
  from 1 b have "tok = sample_token" by simp
  with 2 have "ValidateToken sample_libs (sample_world\<lparr>clock := 3600000000001\<rparr>)
           (Some (bearerTokenKey @ sample_token)) = Inr (tokenClaims user0)" by blast
  with b show ?thesis by (simp add: tokenClaims_def user0_def)
qed

section \<open>Registering and authenticating\<close>

lemma Register_stored:
  assumes "Register L u w = (Inr u', w1)"
  shows "Email u \<noteq> [] \<and> Email u' = Email u \<and> Name u' = Name u \<and>
         bcrypt_GenerateFromPassword L (Pwd u) = Some (Pwd u') \<and>
         get_item Email (Email u) (Users w1) = Some u'"
  using assms
  by (auto simp add: Register_def HashPwd_def Let_def case_prod_beta Send_def get_item_def
      put_item_def split: option.splits if_splits list.splits)

lemma Authenticate_found:
  assumes "reachable w" and "email \<noteq> []" and "get_item Email email (Users w) = Some user"
  shows "fst (Authenticate L email pwd w) =
     (if \<not> VerifyPwd L (Pwd user) pwd
      then \<lparr>Success = False,
             Message = ''The password submitted does not match this users password. Please check the email and password and try again'',
             Token = [], ExpiresAt = 0\<rparr>
      else \<lparr>Success = True, Message = ''Success'',
             Token = fst (projr (BuildToken L w user)), ExpiresAt = snd (projr (BuildToken L w user))\<rparr>)"
proof -
  have s: "fst (Send (GetItem ''Users'' [email]) w) = True"
    using Send_reachable [OF assms(1), of "GetItem ''Users'' [email]"] assms(2) by simp
  have b: "BuildToken L (snd (Send (GetItem ''Users'' [email]) w)) user = BuildToken L w user"
    by (simp add: BuildToken_def)
  show ?thesis
    unfolding Authenticate_def Let_def case_prod_beta s
    using assms(3) by (simp add: b BuildToken_eq del: not_False_eq_True)
qed

text \<open>
  C9. Let \<open>Register\<close> have stored a user, and take any later state in which the store is
  reachable and still holds that record under the email. If bcrypt accepts the password
  against the stored hash, \<open>Authenticate\<close> with the email and that password returns an
  \<open>Auth\<close> with \<open>success = true\<close> and a non-empty token; if bcrypt rejects another
  password, \<open>Authenticate\<close> with it returns an \<open>Auth\<close> with \<open>success = false\<close> and an
  empty token. Either way the result is an \<open>Auth\<close> value, never an error.
\<close>

theorem Authenticate_registered:
  assumes "Register L u w = (Inr u', w1)"
    and "reachable w2"
    and "get_item Email (Email u) (Users w2) = Some u'"
    and "bcrypt_CompareHashAndPassword L (Pwd u') (Pwd u)"
    and "\<not> bcrypt_CompareHashAndPassword L (Pwd u') wrong"
  shows "Success (fst (Authenticate L (Email u) (Pwd u) w2)) = True \<and>
         Token (fst (Authenticate L (Email u) (Pwd u) w2)) \<noteq> [] \<and>
         Success (fst (Authenticate L (Email u) wrong w2)) = False \<and>
         Token (fst (Authenticate L (Email u) wrong w2)) = []"
proof -
  from Register_stored [OF assms(1)] have e: "Email u \<noteq> []" by simp
  show ?thesis
    using assms(4,5)
    by (simp add: Authenticate_found [OF assms(2) e assms(3)] VerifyPwd_def BuildToken_eq)
qed

theorem Authenticate_registered_witness:
  "Success (fst (Authenticate sample_libs ''a@x.com'' ''pw1''
      (snd (Register sample_libs user0 sample_world)))) = True \<and>
   Token (fst (Authenticate sample_libs ''a@x.com'' ''pw1''
      (snd (Register sample_libs user0 sample_world)))) = sample_token \<and>
   Success (fst (Authenticate sample_libs ''a@x.com'' ''wrong''
      (snd (Register sample_libs user0 sample_world)))) = False \<and>
   Token (fst (Authenticate sample_libs ''a@x.com'' ''wrong''
      (snd (Register sample_libs user0 sample_world)))) = []"
proof -
  let ?u = "user0\<lparr>Pwd := ''$2a$10$pw1''\<rparr>"
  let ?w1 = "snd (Register sample_libs user0 sample_world)"
  have f: "fst (Register sample_libs user0 sample_world) = Inr ?u" by code_simp
  then have r: "Register sample_libs user0 sample_world = (Inr ?u, ?w1)"
    by (metis prod.collapse)
  have o: "outages ?w1 = []" by code_simp
  then have re: "reachable ?w1" by (simp add: reachable_def)
  have g: "get_item Email (Email user0) (Users ?w1) = Some ?u" by code_simp
  have c: "bcrypt_CompareHashAndPassword sample_libs (Pwd ?u) (Pwd user0)"
    "\<not> bcrypt_CompareHashAndPassword sample_libs (Pwd ?u) ''wrong''"
    by (simp_all add: sample_libs_def user0_def)
  have t: "Token (fst (Authenticate sample_libs ''a@x.com'' ''pw1'' ?w1)) = sample_token"
    by code_simp
  have e: "Email user0 = ''a@x.com''" "Pwd user0 = ''pw1''" by (simp_all add: user0_def)
  from Authenticate_registered [OF r re g c] t show ?thesis
    unfolding e by simp
qed

section \<open>The token check on reads\<close>

text \<open>The resolver of \<open>bankAccounts\<close> checks the token first: without a header that starts with the
  Bearer scheme it returns an \<open>AuthError\<close> and leaves the state, request log included,
  as it was.\<close>

lemma bankAccounts_checks_token:
  assumes "authHeader = None \<or> (\<exists>h. authHeader = Some h \<and> \<not> prefix bearerTokenKey h)"
  shows "\<exists>m. bankAccounts_Resolve L authHeader bankId w = (Inl (AuthError m), w)"
  using assms by (auto simp add: bankAccounts_Resolve_def ValidateToken_def)

text \<open>
  C3. The resolvers of \<open>bankAccount\<close> and \<open>accountCards\<close> never look at the
  Authorization value. Called with the empty header the middleware passes on when the
  request has none, \<open>bankAccount\<close> sends a \<open>GetItem\<close> and returns the account, and
  \<open>accountCards\<close> sends a \<open>Query\<close> and returns the cards: neither fails with an
  \<open>AuthError\<close>, and both reach the store.
\<close>

theorem reads_without_token:
  "fst (bankAccount_Resolve sample_libs (Some []) bank0 acct0 sample_world) = Inr sample_account \<and>
   requests (snd (bankAccount_Resolve sample_libs (Some []) bank0 acct0 sample_world)) =
     [GetItem ''BankAccounts'' [bank0, acct0]] \<and>
   fst (accountCards_Resolve sample_libs (Some []) acct0 sample_world) = Inr [card_A, card_B] \<and>
   requests (snd (accountCards_Resolve sample_libs (Some []) acct0 sample_world)) =
     [Query ''Cards'' acct0]"
  by code_simp

section \<open>Identifiers that are not UUIDs\<close>

text \<open>
  C4. \<open>saveTransaction\<close> with a well-formed \<open>bankId\<close> and a transaction whose
  \<open>accountId\<close> is \<open>not-a-uuid\<close>: \<open>Save\<close> parses the \<open>accountId\<close> only after its
  \<open>PutItem\<close>, so the error comes back after a store write, and the transaction stays in
  the table under the malformed key.
\<close>

theorem unvalidated_write:
  "uuid_FromString sample_libs ''not-a-uuid'' = None \<and>
   fst (saveTransaction_Resolve sample_libs (Some []) bank0 (txn ''not-a-uuid'' 1 5 ''DEBIT'')
          sample_world) = Inl (ValidationError ''not-a-uuid'') \<and>
   requests (snd (saveTransaction_Resolve sample_libs (Some []) bank0
          (txn ''not-a-uuid'' 1 5 ''DEBIT'') sample_world)) =
     [PutItem ''Transactions'' [''not-a-uuid'', ''00000000-0000-4000-8000-000000000001'']] \<and>
   Transactions (snd (saveTransaction_Resolve sample_libs (Some []) bank0
          (txn ''not-a-uuid'' 1 5 ''DEBIT'') sample_world)) =
     [(txn ''not-a-uuid'' 1 5 ''DEBIT'')\<lparr>TransactionId := ''00000000-0000-4000-8000-000000000001''\<rparr>]"
  by code_simp

end
